theory Spec2Isabelle
  imports Complex_Main "HOL-Library.Multiset"
begin

section \<open>The lake model script: aggregation, registration, top-level flow\<close>

text \<open>
  The development follows \<^verbatim>\<open>assignment 2 - lakemodel.py\<close>. Python floats are
  idealised as exact reals: rounding, infinities and NaN inside an input array are
  not modelled. The one exception is the second model of \<^verbatim>\<open>process_p\<close>, which
  computes in IEEE binary64 arithmetic and is used where the order of the additions
  matters. A two-dimensional array is the list of its rows, one row per
  replication, one column per time step.
\<close>

subsection \<open>\<^verbatim>\<open>process_p\<close> (lines 126-129)\<close>

datatype np_error = ValueError

text \<open>
  A numpy scalar result: a number, or the NaN that the mean over an axis of length zero
  yields.
\<close>

datatype np_float = Num real | NaN

text \<open>
  \<^verbatim>\<open>np.asarray(values)\<close>: rows of unequal length have no array shape and are
  refused.
\<close>

definition np_asarray :: "real list list \<Rightarrow> np_error + real list list" where
  "np_asarray values =
     (if list_all (\<lambda>r. length r = length (hd values)) values then Inr values
      else Inl ValueError)"

text \<open>
  \<^verbatim>\<open>np.mean(a, axis=0)\<close> on an array with at least one row: the rows are added up
  element by element, then every sum is divided by the number of rows.
\<close>

definition np_mean_axis0 :: "real list list \<Rightarrow> real list" where
  "np_mean_axis0 a =
     map (\<lambda>s. s / real (length a)) (foldl (map2 (+)) (hd a) (tl a))"

text \<open>\<^verbatim>\<open>np.max(v)\<close>: a reduction with no identity, so the empty array is an error.\<close>

definition np_max :: "real list \<Rightarrow> np_error + real" where
  "np_max v = (if v = [] then Inl ValueError else Inr (foldl max (hd v) (tl v)))"

text \<open>
  \<^verbatim>\<open>
  def process_p(values):
      values = np.asarray(values)
      values = np.mean(values, axis=0)
      return np.max(values)
  \<close>
  With no row at all the array is the empty one-dimensional array, whose mean is NaN, and
  the maximum of NaN is NaN.
\<close>

definition process_p :: "real list list \<Rightarrow> np_error + np_float" where
  "process_p values =
     (case np_asarray values of
        Inl e \<Rightarrow> Inl e
      | Inr a \<Rightarrow>
          if a = [] then Inr NaN
          else (case np_max (np_mean_axis0 a) of
                  Inl e \<Rightarrow> Inl e
                | Inr v \<Rightarrow> Inr (Num v)))"

text \<open>
  A non-empty two-dimensional array: at least one row, at least one column, all rows of
  one length.
\<close>

definition is_2d :: "real list list \<Rightarrow> bool" where
  "is_2d values \<longleftrightarrow>
     values \<noteq> [] \<and> hd values \<noteq> [] \<and> list_all (\<lambda>r. length r = length (hd values)) values"



subsection \<open>\<^verbatim>\<open>process_p\<close> in binary64 arithmetic\<close>

text \<open>
  numpy computes on IEEE-754 binary64 numbers. A finite binary64 number is modelled as a
  pair \<open>(m, e)\<close> of integers that stands for \<open>m * 2^e\<close>, with \<open>|m| < 2^53\<close>. Every
  operation returns the exact result rounded to the nearest number with a 53-bit
  significand, ties to the even significand. The exponent is not bounded: overflow,
  subnormal numbers, infinities, NaN and the sign of zero are outside this model.
\<close>

type_synonym float64 = "int \<times> int"

text \<open>The number of binary digits of a natural number.\<close>

fun bit_length :: "nat \<Rightarrow> nat" where
  "bit_length n = (if n = 0 then 0 else Suc (bit_length (n div 2)))"

declare bit_length.simps [simp del]

text \<open>The integer nearest to \<open>p / q\<close> for \<open>q > 0\<close>, a tie going to the even one.\<close>

definition round_half_even :: "int \<Rightarrow> int \<Rightarrow> int" where
  "round_half_even p q =
     (if q < 2 * (p mod q) \<or> (2 * (p mod q) = q \<and> odd (p div q)) then p div q + 1
      else p div q)"

text \<open>The fraction \<open>p / q\<close> times \<open>2^s\<close>, as numerator and denominator.\<close>

definition scaled :: "int \<Rightarrow> int \<Rightarrow> int \<Rightarrow> int \<times> int" where
  "scaled p q s = (if 0 \<le> s then (p * 2 ^ nat s, q) else (p, q * 2 ^ nat (- s)))"

text \<open>
  The shift \<open>s\<close> that brings \<open>|p / q| * 2^s\<close> into \<open>[2^52, 2^53)\<close>: a first guess from
  the bit lengths lands in \<open>[2^52, 2^54)\<close> and is lowered by one when it is too high.
\<close>

definition shift_guess :: "int \<Rightarrow> int \<Rightarrow> int" where
  "shift_guess p q = int (bit_length (nat q)) + 53 - int (bit_length (nat \<bar>p\<bar>))"

definition shift_53 :: "int \<Rightarrow> int \<Rightarrow> int" where
  "shift_53 p q =
     (if 2 ^ 53 \<le> \<bar>fst (scaled p q (shift_guess p q))\<bar> div snd (scaled p q (shift_guess p q))
      then shift_guess p q - 1 else shift_guess p q)"

definition mantissa :: "int \<Rightarrow> int \<Rightarrow> int" where
  "mantissa p q =
     round_half_even (fst (scaled p q (shift_53 p q))) (snd (scaled p q (shift_53 p q)))"

text \<open>
  The binary64 number nearest to \<open>(p / q) * 2^e\<close>, for \<open>q > 0\<close>. A significand that
  rounds up to \<open>2^53\<close> is written with the next exponent.
\<close>

definition round_f64 :: "int \<Rightarrow> int \<Rightarrow> int \<Rightarrow> float64" where
  "round_f64 p q e =
     (if p = 0 then (0, 0)
      else if \<bar>mantissa p q\<bar> = 2 ^ 53 then (mantissa p q div 2, e - shift_53 p q + 1)
      else (mantissa p q, e - shift_53 p q))"

text \<open>Addition: the exact sum over the smaller exponent, rounded.\<close>

definition f64_add :: "float64 \<Rightarrow> float64 \<Rightarrow> float64" where
  "f64_add x y =
     round_f64
       (fst x * 2 ^ nat (snd x - min (snd x) (snd y))
          + fst y * 2 ^ nat (snd y - min (snd x) (snd y)))
       1 (min (snd x) (snd y))"

text \<open>
  Division by the number of rows, which \<^verbatim>\<open>np.mean\<close> converts to a binary64 number
  (exactly, below \<open>2^53\<close>): the exact quotient, rounded.
\<close>

definition f64_div_count :: "float64 \<Rightarrow> nat \<Rightarrow> float64" where
  "f64_div_count x n = round_f64 (fst x) (int n) (snd x)"

definition f64_le :: "float64 \<Rightarrow> float64 \<Rightarrow> bool" where
  "f64_le x y \<longleftrightarrow>
     fst x * 2 ^ nat (snd x - min (snd x) (snd y))
       \<le> fst y * 2 ^ nat (snd y - min (snd x) (snd y))"

definition f64_max :: "float64 \<Rightarrow> float64 \<Rightarrow> float64" where
  "f64_max x y = (if f64_le x y then y else x)"

text \<open>The real number a pair stands for.\<close>

definition f64_value :: "float64 \<Rightarrow> real" where
  "f64_value x =
     (if 0 \<le> snd x then of_int (fst x) * 2 ^ nat (snd x) else of_int (fst x) / 2 ^ nat (- snd x))"

datatype np_float64 = Num64 float64 | NaN64

text \<open>
  Lines 126-129 once more, statement by statement as in \<^const>\<open>process_p\<close>, on binary64
  numbers. \<^verbatim>\<open>np.mean(values, axis=0)\<close> adds the rows to the first one, one row after the
  other in the order of the array, rounding after every addition, and divides every sum
  by the number of rows.
\<close>

definition np_asarray_f64 :: "float64 list list \<Rightarrow> np_error + float64 list list" where
  "np_asarray_f64 values =
     (if list_all (\<lambda>r. length r = length (hd values)) values then Inr values
      else Inl ValueError)"

definition np_mean_axis0_f64 :: "float64 list list \<Rightarrow> float64 list" where
  "np_mean_axis0_f64 a =
     map (\<lambda>s. f64_div_count s (length a)) (foldl (map2 f64_add) (hd a) (tl a))"

definition np_max_f64 :: "float64 list \<Rightarrow> np_error + float64" where
  "np_max_f64 v = (if v = [] then Inl ValueError else Inr (foldl f64_max (hd v) (tl v)))"

definition process_p_f64 :: "float64 list list \<Rightarrow> np_error + np_float64" where
  "process_p_f64 values =
     (case np_asarray_f64 values of
        Inl e \<Rightarrow> Inl e
      | Inr a \<Rightarrow>
          if a = [] then Inr NaN64
          else (case np_max_f64 (np_mean_axis0_f64 a) of
                  Inl e \<Rightarrow> Inl e
                | Inr v \<Rightarrow> Inr (Num64 v)))"

subsection \<open>Registration of the model (lines 108-143)\<close>

text \<open>
  The workbench classes the script instantiates, as plain data.
  \<^verbatim>\<open>RealParameter(name, lower_bound, upper_bound)\<close> is the workbench's continuous
  real-valued parameter.
\<close>

datatype parameter = RealParameter (param_name: string) (lower_bound: real) (upper_bound: real)

text \<open>A constant's value is a Python float (\<^verbatim>\<open>0.41\<close>) or a Python int (\<^verbatim>\<open>150\<close>).\<close>

datatype py_number = PyFloat real | PyInt int

datatype ema_constant = Constant (constant_name: string) (constant_value: py_number)

text \<open>
  \<^verbatim>\<open>ScalarOutcome(name, kind=INFO, variable_name=None, function=None)\<close>: the script
  passes the name only, so the two optional arguments keep their defaults.
\<close>

record scalar_outcome =
  outcome_name :: string
  variable_name :: "string list option"
  outcome_function :: "(real list list \<Rightarrow> np_error + np_float) option"

definition ScalarOutcome :: "string \<Rightarrow> scalar_outcome" where
  "ScalarOutcome n = \<lparr>outcome_name = n, variable_name = None, outcome_function = None\<rparr>"

text \<open>
  The output fields of the model function that an outcome reads: the given
  \<^verbatim>\<open>variable_name\<close>, and the outcome's own name when none is given (the workbench's
  default).
\<close>

definition output_fields :: "scalar_outcome \<Rightarrow> string list" where
  "output_fields oc = (case variable_name oc of None \<Rightarrow> [outcome_name oc] | Some vs \<Rightarrow> vs)"

record model_config =
  model_name :: string
  model_function :: string
  uncertainties :: "parameter list"
  levers :: "parameter list"
  outcomes :: "scalar_outcome list"
  constants :: "ema_constant list"

text \<open>\<^verbatim>\<open>Model('lakeproblem', function=lake_problem)\<close>: nothing registered yet.\<close>

definition Model :: "string \<Rightarrow> string \<Rightarrow> model_config" where
  "Model n f = \<lparr>model_name = n, model_function = f, uncertainties = [], levers = [],
     outcomes = [], constants = []\<rparr>"

text \<open>The four attribute assignments of the script, in their order.\<close>

definition model :: model_config where
  "model =
    (let m0 = Model ''lakeproblem'' ''lake_problem'';
         m1 = m0\<lparr>uncertainties :=
                [RealParameter ''mean'' 0.01 0.05,
                 RealParameter ''stdev'' 0.001 0.005,
                 RealParameter ''b'' 0.1 0.45,
                 RealParameter ''q'' 2 4.5,
                 RealParameter ''delta'' 0.93 0.99]\<rparr>;
         m2 = m1\<lparr>levers :=
                [RealParameter ''c1'' (- 2) 2,
                 RealParameter ''c2'' (- 2) 2,
                 RealParameter ''r1'' 0 2,
                 RealParameter ''r2'' 0 2,
                 RealParameter ''w1'' 0 1]\<rparr>;
         m3 = m2\<lparr>outcomes :=
                [ScalarOutcome ''max_P'',
                 ScalarOutcome ''utility'',
                 ScalarOutcome ''inertia'',
                 ScalarOutcome ''reliability'']\<rparr>;
         m4 = m3\<lparr>constants :=
                [Constant ''alpha'' (PyFloat 0.41),
                 Constant ''nsamples'' (PyInt 150)]\<rparr>
     in m4)"

subsection \<open>The top-level statements and their names (lines 100-189)\<close>

text \<open>
  Module globals map a name to what it is bound to; only the experiment's result is told
  apart from other objects.
\<close>

datatype 'r py_value = Object | Result 'r

type_synonym 'r globals = "string \<rightharpoonup> 'r py_value"

datatype py_exception = NameError string | Raised string

text \<open>What the call \<^verbatim>\<open>evaluator.perform_experiments(...)\<close> does: return a value or raise.\<close>

datatype 'r call_outcome = Returns 'r | Raises string

text \<open>
  A top-level statement, reduced to its name traffic: the global names it loads, in
  evaluation order, and the names it binds. \<open>Call\<close> is the assignment whose right-hand
  side is the experiment run. An import is a statement that loads no name and binds the
  imported ones; imports are taken to succeed.
\<close>

datatype 'r stmt =
    Stmt "string list" "string list"
  | Call "string list" string "'r call_outcome"

text \<open>Loading names in order: the first unbound one raises \<^verbatim>\<open>NameError\<close>.\<close>

fun load_names :: "'r globals \<Rightarrow> string list \<Rightarrow> py_exception option" where
  "load_names env [] = None"
| "load_names env (n # ns) =
     (case env n of None \<Rightarrow> Some (NameError n) | Some _ \<Rightarrow> load_names env ns)"

fun bind_names :: "'r globals \<Rightarrow> string list \<Rightarrow> 'r globals" where
  "bind_names env [] = env"
| "bind_names env (n # ns) = bind_names (env(n \<mapsto> Object)) ns"

fun exec_stmt :: "'r globals \<Rightarrow> 'r stmt \<Rightarrow> py_exception + 'r globals" where
  "exec_stmt env (Stmt loads binds) =
     (case load_names env loads of
        Some e \<Rightarrow> Inl e
      | None \<Rightarrow> Inr (bind_names env binds))"
| "exec_stmt env (Call loads target outcome) =
     (case load_names env loads of
        Some e \<Rightarrow> Inl e
      | None \<Rightarrow>
          (case outcome of
             Raises e \<Rightarrow> Inl (Raised e)
           | Returns r \<Rightarrow> Inr (env(target \<mapsto> Result r))))"

text \<open>Statements run in order; the first exception ends the script.\<close>

fun exec :: "'r globals \<Rightarrow> 'r stmt list \<Rightarrow> py_exception + 'r globals" where
  "exec env [] = Inr env"
| "exec env (s # ss) =
     (case exec_stmt env s of Inl e \<Rightarrow> Inl e | Inr env' \<Rightarrow> exec env' ss)"

text \<open>The names the interpreter provides before the first statement, as far as the script reads them.\<close>

definition initial_globals :: "'r globals" where
  "initial_globals = [''__name__'' \<mapsto> Object, ''list'' \<mapsto> Object]"

text \<open>Lines 100-143: imports, the model and its registrations, \<^verbatim>\<open>def process_p\<close>.\<close>

definition setup_block :: "'r stmt list" where
  "setup_block =
    [Stmt [] [''lake_problem''],
     Stmt [] [''np''],
     Stmt [] [''RealParameter'', ''ScalarOutcome'', ''Constant'', ''Model''],
     Stmt [''Model'', ''lake_problem''] [''model''],
     Stmt [''RealParameter'', ''RealParameter'', ''RealParameter'', ''RealParameter'',
           ''RealParameter'', ''model''] [],
     Stmt [''RealParameter'', ''RealParameter'', ''RealParameter'', ''RealParameter'',
           ''RealParameter'', ''model''] [],
     Stmt [] [''process_p''],
     Stmt [''ScalarOutcome'', ''ScalarOutcome'', ''ScalarOutcome'', ''ScalarOutcome'',
           ''model''] [],
     Stmt [''Constant'', ''Constant'', ''model''] []]"

text \<open>
  Lines 154-160: the import, then the body of \<^verbatim>\<open>if __name__ == "__main__":\<close>, which
  runs only when the file is executed as a program.
\<close>

definition experiment_block :: "bool \<Rightarrow> 'r call_outcome \<Rightarrow> 'r stmt list" where
  "experiment_block is_main outcome =
    [Stmt [] [''MultiprocessingEvaluator'', ''ema_logging'', ''perform_experiments''],
     Stmt [''__name__''] []] @
    (if is_main then
       [Stmt [''ema_logging'', ''ema_logging''] [],
        Stmt [''MultiprocessingEvaluator'', ''model''] [''evaluator''],
        Call [''evaluator''] ''results'' outcome]
     else [])"

text \<open>Lines 179-189: the analysis.\<close>

definition analysis_block :: "'r stmt list" where
  "analysis_block =
    [Stmt [] [''pd''],
     Stmt [''pd'', ''outcomes''] [''data''],
     Stmt [] [''sns''],
     Stmt [] [''plt''],
     Stmt [''sns'', ''data'', ''list'', ''outcomes''] [],
     Stmt [''plt''] []]"

definition script :: "bool \<Rightarrow> 'r call_outcome \<Rightarrow> 'r stmt list" where
  "script is_main outcome = setup_block @ experiment_block is_main outcome @ analysis_block"

subsection \<open>The model function \<^verbatim>\<open>lake_problem\<close> (imported at line 100)\<close>

text \<open>
  Modelled from the spec: the parameter set of \<^verbatim>\<open>lake_problem\<close>, whose file
  \<^verbatim>\<open>lakemodel_function.py\<close> is not among the sources. The fields are the
  specification's uncertain factors \<open>mean\<close>, \<open>stdev\<close>, \<open>b\<close>, \<open>q\<close>, \<open>delta\<close>, its levers
  \<open>c1\<close>, \<open>c2\<close>, \<open>r1\<close>, \<open>r2\<close>, \<open>w1\<close> and its constants \<open>alpha\<close>, \<open>nsamples\<close>, with a prefix
  that keeps the short names free for variables.
\<close>

record scenario =
  u_mean :: real
  u_stdev :: real
  u_b :: real
  u_q :: real
  u_delta :: real

record policy =
  l_c1 :: real
  l_c2 :: real
  l_r1 :: real
  l_r2 :: real
  l_w1 :: real

record lake_constants =
  k_alpha :: real
  k_nsamples :: nat

text \<open>
  Modelled from the spec: what the specification leaves open or assigns to a library, taken
  as parameters of \<^verbatim>\<open>lake_problem\<close>: the planning horizon \<open>T\<close>, the release rule (from the
  levers and the trajectory so far to the release before clipping), the critical threshold
  as a function of \<open>b\<close> and \<open>q\<close>, the log-normal sampler with the given mean and standard
  deviation, which takes the generator's state and returns a draw and the next state, and
  the generator state that a seed selects.
\<close>

record 'g lake_env =
  horizon :: nat
  release_rule :: "policy \<Rightarrow> real list \<Rightarrow> real"
  critical_P :: "real \<Rightarrow> real \<Rightarrow> real"
  lognormal :: "real \<Rightarrow> real \<Rightarrow> 'g \<Rightarrow> real \<times> 'g"
  seed :: "nat \<Rightarrow> 'g"

text \<open>
  Modelled from the spec: the outcome vector of \<^verbatim>\<open>lake_problem\<close>, four named scalars in
  the order \<open>max_P\<close>, \<open>utility\<close>, \<open>inertia\<close>, \<open>reliability\<close>.
\<close>

record outcome_vector =
  max_P :: real
  utility :: real
  inertia :: real
  reliability :: real

text \<open>
  Modelled from the spec: the declared ranges of the uncertain factors and levers
  (section 3), which make a parameter set valid.
\<close>

definition valid_parameter_set :: "scenario \<Rightarrow> policy \<Rightarrow> bool" where
  "valid_parameter_set s p \<longleftrightarrow>
     0.01 \<le> u_mean s \<and> u_mean s \<le> 0.05 \<and>
     0.001 \<le> u_stdev s \<and> u_stdev s \<le> 0.005 \<and>
     0.1 \<le> u_b s \<and> u_b s \<le> 0.45 \<and>
     2 \<le> u_q s \<and> u_q s \<le> 4.5 \<and>
     0.93 \<le> u_delta s \<and> u_delta s \<le> 0.99 \<and>
     - 2 \<le> l_c1 p \<and> l_c1 p \<le> 2 \<and>
     - 2 \<le> l_c2 p \<and> l_c2 p \<le> 2 \<and>
     0 \<le> l_r1 p \<and> l_r1 p \<le> 2 \<and>
     0 \<le> l_r2 p \<and> l_r2 p \<le> 2 \<and>
     0 \<le> l_w1 p \<and> l_w1 p \<le> 1"

text \<open>
  Modelled from the spec: the one clamp of \<^verbatim>\<open>lake_problem\<close>, the release clipped to the
  physical range [0, 0.1].
\<close>

definition clip_release :: "real \<Rightarrow> real" where
  "clip_release a = min 0.1 (max 0 a)"

text \<open>
  Modelled from the spec: step 2a of \<^verbatim>\<open>lake_problem\<close>, a sequence of independent draws
  of the natural inflow, each advancing the generator.
\<close>

fun draw_inflows :: "('g \<Rightarrow> real \<times> 'g) \<Rightarrow> nat \<Rightarrow> 'g \<Rightarrow> real list \<times> 'g" where
  "draw_inflows draw 0 g = ([], g)"
| "draw_inflows draw (Suc n) g =
     (let (e, g') = draw g;
          (es, g'') = draw_inflows draw n g'
      in (e # es, g''))"

text \<open>
  Modelled from the spec: steps 2b-2d of \<^verbatim>\<open>lake_problem\<close>, one replication. It starts
  from the trajectory \<open>[0]\<close> and no release; every inflow \<open>e\<close> adds the clipped release
  \<open>a\<^sub>t\<close> and the stock \<open>X\<^sub>t\<^sub>+\<^sub>1 = X\<^sub>t + a\<^sub>t + X\<^sub>t^q / (1 + X\<^sub>t^q) - b * X\<^sub>t + e\<close>. The result is the
  trajectory \<open>X\<^sub>0 \<dots> X\<^sub>T\<close> and the releases \<open>a\<^sub>0 \<dots> a\<^sub>T\<^sub>-\<^sub>1\<close>.
\<close>

fun replication ::
  "(real list \<Rightarrow> real) \<Rightarrow> real \<Rightarrow> real \<Rightarrow> real list \<Rightarrow> real list \<Rightarrow> real list
     \<Rightarrow> real list \<times> real list" where
  "replication rule b q [] X a = (X, a)"
| "replication rule b q (e # es) X a =
     (let x = last X;
          r = clip_release (rule X);
          x' = x + r + x powr q / (1 + x powr q) - b * x + e
      in replication rule b q es (X @ [x']) (a @ [r]))"

text \<open>
  Modelled from the spec: step 2 of \<^verbatim>\<open>lake_problem\<close>, the given number of replications,
  each with its own draws from the generator.
\<close>

fun replications ::
  "'g lake_env \<Rightarrow> scenario \<Rightarrow> policy \<Rightarrow> nat \<Rightarrow> 'g \<Rightarrow> (real list \<times> real list) list \<times> 'g" where
  "replications env s p 0 g = ([], g)"
| "replications env s p (Suc n) g =
     (let (es, g') = draw_inflows (lognormal env (u_mean s) (u_stdev s)) (horizon env) g;
          run = replication (release_rule env p) (u_b s) (u_q s) es [0] [];
          (runs, g'') = replications env s p n g'
      in (run # runs, g''))"

text \<open>
  Modelled from the spec: the outcome formulas of step 4 of \<^verbatim>\<open>lake_problem\<close>.
  \<open>utility\<close> is the sum of \<open>alpha * a\<^sub>t * delta^t\<close> over \<open>t = 0 \<dots> T-1\<close>; \<open>inertia\<close> is the
  number of \<open>t = 1 \<dots> T-1\<close> with \<open>|a\<^sub>t - a\<^sub>t\<^sub>-\<^sub>1| > 0.2\<close>, divided by \<open>T - 1\<close>; the reliability of
  one replication is the number of \<open>t = 0 \<dots> T-1\<close> with \<open>X\<^sub>t < X_crit\<close>, divided by \<open>T\<close>.
  Here \<open>T\<close> is the number of releases.
\<close>

definition utility_of :: "real \<Rightarrow> real \<Rightarrow> real list \<Rightarrow> real" where
  "utility_of alpha delta a = (\<Sum>t\<leftarrow>[0..<length a]. alpha * a ! t * delta ^ t)"

definition inertia_of :: "real list \<Rightarrow> real" where
  "inertia_of a =
     (\<Sum>t\<leftarrow>[1..<length a]. of_bool (\<bar>a ! t - a ! (t - 1)\<bar> > 0.2)) / real (length a - 1)"

definition reliability_of :: "real \<Rightarrow> nat \<Rightarrow> real list \<Rightarrow> real" where
  "reliability_of x_crit T X = (\<Sum>t\<leftarrow>[0..<T]. of_bool (X ! t < x_crit)) / real T"

text \<open>
  Modelled from the spec: \<^verbatim>\<open>lake_problem\<close> itself (section 4.1). The trajectories are
  averaged per time step and \<open>max_P\<close> is the maximum of that average; \<open>reliability\<close> is
  averaged over the replications after the indicator. The specification calls the release
  sequence replication-invariant, so \<open>utility\<close> and \<open>inertia\<close> read the first replication's
  record. No outcome vector exists (\<open>None\<close>) when there is no replication to average over
  or the horizon is below 2, where \<open>inertia\<close> would divide by zero. The generator's state
  after the draws is returned with the result.
\<close>

definition lake_problem ::
  "'g lake_env \<Rightarrow> scenario \<Rightarrow> policy \<Rightarrow> lake_constants \<Rightarrow> 'g \<Rightarrow> outcome_vector option \<times> 'g" where
  "lake_problem env s p k g =
     (let (runs, g') = replications env s p (k_nsamples k) g
      in if k_nsamples k = 0 \<or> horizon env < 2 then (None, g')
         else
           (let average = np_mean_axis0 (map fst runs);
                a = snd (hd runs);
                x_crit = critical_P env (u_b s) (u_q s)
            in (Some \<lparr>max_P = foldl max (hd average) (tl average),
                      utility = utility_of (k_alpha k) (u_delta s) a,
                      inertia = inertia_of a,
                      reliability =
                        (\<Sum>run\<leftarrow>runs. reliability_of x_crit (horizon env) (fst run))
                          / real (k_nsamples k)\<rparr>,
                g')))"




subsection \<open>Facts about the reductions\<close>

lemma foldl_map2_add_length:
  "list_all (\<lambda>r. length r = length acc) rs \<Longrightarrow>
     length (foldl (map2 (+)) acc rs) = length acc"
  by (induction rs arbitrary: acc) auto

lemma foldl_map2_add_nth:
  fixes acc :: "real list"
  shows "list_all (\<lambda>r. length r = length acc) rs \<Longrightarrow> t < length acc \<Longrightarrow>
     foldl (map2 (+)) acc rs ! t = acc ! t + (\<Sum>r\<leftarrow>rs. r ! t)"
proof (induction rs arbitrary: acc)
  case Nil
  then show ?case by simp
next
  case (Cons r rs)
  let ?acc' = "map2 (+) acc r"
  from Cons.prems have len: "length ?acc' = length acc" by simp
  from Cons.prems have "list_all (\<lambda>r. length r = length ?acc') rs"
    by (simp add: len)
  moreover from Cons.prems have "t < length ?acc'" by (simp add: len)
  ultimately have "foldl (map2 (+)) ?acc' rs ! t = ?acc' ! t + (\<Sum>r\<leftarrow>rs. r ! t)"
    by (rule Cons.IH)
  moreover from Cons.prems have "?acc' ! t = acc ! t + r ! t" by simp
  ultimately show ?case by simp
qed

lemma np_mean_axis0_length:
  "is_2d a \<Longrightarrow> length (np_mean_axis0 a) = length (hd a)"
  by (cases a) (auto simp: is_2d_def np_mean_axis0_def foldl_map2_add_length)

lemma np_mean_axis0_nth:
  assumes "is_2d a" and "t < length (hd a)"
  shows "np_mean_axis0 a ! t = (\<Sum>r\<leftarrow>a. r ! t) / real (length a)"
proof (cases a)
  case Nil
  with assms show ?thesis by (simp add: is_2d_def)
next
  case (Cons r rs)
  with assms have all: "list_all (\<lambda>x. length x = length r) rs" and t: "t < length r"
    by (simp_all add: is_2d_def)
  have "length (foldl (map2 (+)) r rs) = length r"
    using all by (rule foldl_map2_add_length)
  with t have "np_mean_axis0 a ! t = foldl (map2 (+)) r rs ! t / real (length a)"
    by (simp add: np_mean_axis0_def Cons)
  also have "foldl (map2 (+)) r rs ! t = r ! t + (\<Sum>x\<leftarrow>rs. x ! t)"
    using all t by (rule foldl_map2_add_nth)
  finally show ?thesis by (simp add: Cons)
qed

lemma foldl_max_eq_Max:
  fixes x :: real
  shows "foldl max x xs = Max (set (x # xs))"
proof -
  have "foldl max x xs = fold max xs x"
    by (simp add: foldl_conv_fold max.commute)
  also have "\<dots> = Max (set (x # xs))"
    by (rule Max.set_eq_fold [symmetric])
  finally show ?thesis .
qed

lemma np_max_eq_Max: "v \<noteq> [] \<Longrightarrow> np_max v = Inr (Max (set v))"
  by (cases v) (simp_all add: np_max_def foldl_max_eq_Max del: set_simps)

text \<open>What \<^const>\<open>process_p\<close> returns on a non-empty two-dimensional array.\<close>

lemma process_p_is_2d:
  assumes "is_2d a"
  shows "process_p a =
     Inr (Num (Max ((\<lambda>t. (\<Sum>r\<leftarrow>a. r ! t) / real (length a)) ` {..<length (hd a)})))"
proof -
  from assms have ne: "a \<noteq> []" and cols: "hd a \<noteq> []"
    and arr: "np_asarray a = Inr a"
    by (simp_all add: is_2d_def np_asarray_def)
  have len: "length (np_mean_axis0 a) = length (hd a)"
    using assms by (rule np_mean_axis0_length)
  with cols have mne: "np_mean_axis0 a \<noteq> []" by auto
  have "set (np_mean_axis0 a) = (\<lambda>t. np_mean_axis0 a ! t) ` {..<length (hd a)}"
    by (simp add: set_conv_nth len [symmetric] image_def lessThan_def) blast
  also have "\<dots> = (\<lambda>t. (\<Sum>r\<leftarrow>a. r ! t) / real (length a)) ` {..<length (hd a)}"
    using assms by (intro image_cong refl) (simp add: np_mean_axis0_nth)
  finally have "Max (set (np_mean_axis0 a)) =
      Max ((\<lambda>t. (\<Sum>r\<leftarrow>a. r ! t) / real (length a)) ` {..<length (hd a)})"
    by simp
  with ne arr mne show ?thesis
    by (simp add: process_p_def np_max_eq_Max)
qed



lemma same_length_rows_iff:
  "list_all (\<lambda>r. length r = length (hd a)) a \<longleftrightarrow>
     (\<forall>r\<in>set a. \<forall>r'\<in>set a. length r = length r')"
proof (cases a)
  case Nil
  then show ?thesis by simp
next
  case (Cons x xs)
  show ?thesis
    unfolding Cons list_all_iff by (simp only: list.sel) (metis list.set_intros(1))
qed

lemma np_mean_axis0_length_gen:
  "a \<noteq> [] \<Longrightarrow> list_all (\<lambda>r. length r = length (hd a)) a \<Longrightarrow>
     length (np_mean_axis0 a) = length (hd a)"
  by (cases a) (simp_all add: np_mean_axis0_def foldl_map2_add_length)

lemma process_p_ragged:
  "\<not> list_all (\<lambda>r. length r = length (hd a)) a \<Longrightarrow> process_p a = Inl ValueError"
  by (simp add: process_p_def np_asarray_def)

lemma hd_length_mset:
  assumes "mset a' = mset a" and "a \<noteq> []" and "list_all (\<lambda>r. length r = length (hd a)) a"
  shows "length (hd a') = length (hd a)"
proof -
  from assms(1) have s: "set a' = set a" by (rule mset_eq_setD)
  from assms(1,2) have "a' \<noteq> []" by auto
  then have "hd a' \<in> set a'" by (rule hd_in_set)
  then have "hd a' \<in> set a" by (simp only: s)
  with assms(3) show ?thesis by (simp only: list_all_iff)
qed

lemma process_p_no_columns:
  assumes "a \<noteq> []" and "list_all (\<lambda>r. length r = length (hd a)) a" and "hd a = []"
  shows "process_p a = Inl ValueError"
proof -
  from assms have "length (np_mean_axis0 a) = 0"
    by (simp add: np_mean_axis0_length_gen)
  then have "np_mean_axis0 a = []" by simp
  with assms(1,2) show ?thesis
    by (simp add: process_p_def np_asarray_def np_max_def)
qed

lemma column_sum_mset:
  fixes a :: "real list list"
  assumes "mset a' = mset a"
  shows "(\<Sum>r\<leftarrow>a'. r ! t) = (\<Sum>r\<leftarrow>a. r ! t)"
proof -
  have "mset (map (\<lambda>r. r ! t) a') = mset (map (\<lambda>r. r ! t) a)"
    by (simp only: mset_map assms)
  then have "sum_mset (mset (map (\<lambda>r. r ! t) a')) = sum_mset (mset (map (\<lambda>r. r ! t) a))"
    by (rule arg_cong)
  then show ?thesis by (simp only: sum_mset_sum_list)
qed




subsection \<open>Reordering the replications\<close>

text \<open>
  In exact arithmetic the order of the rows does not matter: arrays with the same rows in
  another order give the same result of \<^const>\<open>process_p\<close>, error and NaN cases included.
\<close>

lemma process_p_exact_permutation_invariant:
  assumes "mset values' = mset values"
  shows "process_p values' = process_p values"
proof (cases "list_all (\<lambda>r. length r = length (hd values)) values")
  case False
  have s: "set values' = set values" using assms by (rule mset_eq_setD)
  have "list_all (\<lambda>r. length r = length (hd values')) values'
      = list_all (\<lambda>r. length r = length (hd values)) values"
    by (simp only: same_length_rows_iff s)
  with False have "\<not> list_all (\<lambda>r. length r = length (hd values')) values'"
    by simp
  then have "process_p values' = Inl ValueError" by (rule process_p_ragged)
  moreover from False have "process_p values = Inl ValueError" by (rule process_p_ragged)
  ultimately show ?thesis by simp
next
  case rect: True
  have s: "set values' = set values" using assms by (rule mset_eq_setD)
  have "list_all (\<lambda>r. length r = length (hd values')) values'
      = list_all (\<lambda>r. length r = length (hd values)) values"
    by (simp only: same_length_rows_iff s)
  with rect have rect': "list_all (\<lambda>r. length r = length (hd values')) values'"
    by simp
  show ?thesis
  proof (cases "values = []")
    case True
    with assms have "values' = []" by simp
    with True show ?thesis by simp
  next
    case ne: False
    with assms have ne': "values' \<noteq> []" by auto
    have cols: "length (hd values') = length (hd values)"
      using assms ne rect by (rule hd_length_mset)
    have rows: "length values' = length values"
      using assms by (rule mset_eq_length)
    show ?thesis
    proof (cases "hd values = []")
      case True
      with cols have "hd values' = []" by simp
      with ne' rect' have "process_p values' = Inl ValueError"
        by (rule process_p_no_columns)
      moreover from ne rect True have "process_p values = Inl ValueError"
        by (rule process_p_no_columns)
      ultimately show ?thesis by simp
    next
      case False
      with cols have "hd values' \<noteq> []" by auto
      with ne' rect' have 1: "is_2d values'" by (simp only: is_2d_def simp_thms)
      from ne False rect have 2: "is_2d values" by (simp only: is_2d_def simp_thms)
      have "(\<lambda>t. (\<Sum>r\<leftarrow>values'. r ! t) / real (length values'))
          = (\<lambda>t. (\<Sum>r\<leftarrow>values. r ! t) / real (length values))"
        by (simp only: rows column_sum_mset [OF assms])
      then show ?thesis
        by (simp only: process_p_is_2d [OF 1] process_p_is_2d [OF 2] cols)
    qed
  qed
qed

lemmas f64_eval = f64_add_def f64_div_count_def f64_max_def f64_le_def round_f64_def
  mantissa_def shift_53_def shift_guess_def round_half_even_def scaled_def bit_length.simps

text \<open>
  In binary64 arithmetic the rounding after each addition makes the order matter. Some
  values of the operations first: the numbers nearest to 0.1, 0.2 and 0.3, three sums at
  \<open>2^53\<close> (a tie goes to the even significand) and a quotient.
\<close>

lemma round_f64_examples:
  "round_f64 1 10 0 = (7205759403792794, - 56)
   \<and> round_f64 2 10 0 = (7205759403792794, - 55)
   \<and> round_f64 3 10 0 = (5404319552844595, - 54)
   \<and> f64_add (9007199254740991, 0) (1, 0) = (4503599627370496, 1)
   \<and> f64_add (9007199254740991, 0) (2, 0) = (4503599627370496, 1)
   \<and> f64_add (9007199254740991, 0) (3, 0) = (4503599627370497, 1)
   \<and> f64_div_count (- 1, 0) 3 = (- 6004799503160661, - 54)"
  by (simp add: f64_eval)

lemma f64_value_examples:
  "f64_value (7205759403792794, - 56) = 3602879701896397 / 36028797018963968
   \<and> f64_value (7205759403792795, - 55) - f64_value (7205759403792793, - 55) = 1 / 2 ^ 54"
  by (simp add: f64_value_def)

lemma f64_add_commute: "f64_add x y = f64_add y x"
  by (simp only: f64_add_def min.commute [of "snd x" "snd y"] add.commute [of "fst x * 2 ^ nat (snd x - min (snd y) (snd x))"])

lemma map2_commute:
  assumes "\<And>x y. f x y = f y x"
  shows "map2 f xs ys = map2 f ys xs"
proof (induction xs arbitrary: ys)
  case Nil
  show ?case by simp
next
  case (Cons x xs)
  show ?case
  proof (cases ys)
    case Nil
    then show ?thesis by simp
  next
    case (Cons y ys')
    have "map2 f xs ys' = map2 f ys' xs" by (rule Cons.IH)
    then show ?thesis by (simp add: Cons assms [of x y])
  qed
qed

lemma process_p_f64_swap: "process_p_f64 [r2, r1] = process_p_f64 [r1, r2]"
proof -
  have "map2 f64_add r2 r1 = map2 f64_add r1 r2"
    by (rule map2_commute) (rule f64_add_commute)
  then have mean: "np_mean_axis0_f64 [r2, r1] = np_mean_axis0_f64 [r1, r2]"
    by (simp add: np_mean_axis0_f64_def)
  have "(length r1 = length r2) = (length r2 = length r1)" by (rule eq_commute)
  then have arr: "(np_asarray_f64 [r2, r1] = Inr [r2, r1]) = (np_asarray_f64 [r1, r2] = Inr [r1, r2])"
    by (simp add: np_asarray_f64_def)
  show ?thesis
  proof (cases "length r1 = length r2")
    case True
    then show ?thesis by (simp add: process_p_f64_def np_asarray_f64_def mean)
  next
    case False
    then have "length r2 \<noteq> length r1" by simp
    with False show ?thesis by (simp add: process_p_f64_def np_asarray_f64_def)
  qed
qed

lemma mset_two_rows:
  assumes "mset a' = mset [r1, r2]"
  shows "a' = [r1, r2] \<or> a' = [r2, r1]"
proof -
  from assms have "length a' = 2" using mset_eq_length [of a' "[r1, r2]"] by simp
  then obtain x y where a': "a' = [x, y]"
    by (cases a'; cases "tl a'") auto
  from assms have "{#x, y#} = {#r1, r2#}" by (simp add: a')
  then have "(x = r1 \<and> y = r2) \<or> (x = r2 \<and> y = r1)"
    by (auto simp: add_eq_conv_ex)
  then show ?thesis by (auto simp: a')
qed

text \<open>
  Claim C9, as amended. For every array with at most two rows, reordering the rows leaves
  the value of \<^const>\<open>process_p_f64\<close> unchanged, error and NaN cases included: the one
  addition per column is commutative. With three or more rows the value can change.
\<close>

theorem process_p_f64_two_rows_invariant:
  assumes "mset values' = mset values" and "length values \<le> 2"
  shows "process_p_f64 values' = process_p_f64 values"
proof (cases "values")
  case Nil
  with assms(1) show ?thesis by simp
next
  case (Cons r1 rest)
  show ?thesis
  proof (cases rest)
    case Nil
    with Cons assms(1) have "values' = values" by simp
    then show ?thesis by simp
  next
    case (Cons r2 rest')
    with assms(2) \<open>values = r1 # rest\<close> have v: "values = [r1, r2]" by simp
    with assms(1) have "values' = [r1, r2] \<or> values' = [r2, r1]"
      by (simp only: mset_two_rows)
    then show ?thesis
    proof
      assume "values' = [r1, r2]"
      then show ?thesis by (simp only: v)
    next
      assume "values' = [r2, r1]"
      then show ?thesis by (simp only: v process_p_f64_swap)
    qed
  qed
qed

theorem process_p_f64_two_rows_invariant_witness:
  "mset [[(3, 0), (1, 0)], [(1, - 1), (5, 0)]]
     = mset [[(1 :: int, - 1 :: int), (5, 0)], [(3, 0), (1, 0)]]
   \<and> length [[(1, - 1), (5, 0)], [(3, 0 :: int), (1 :: int, 0 :: int)]] \<le> 2
   \<and> process_p_f64 [[(3, 0), (1, 0)], [(1, - 1), (5, 0)]]
       = process_p_f64 [[(1, - 1), (5, 0)], [(3, 0), (1, 0)]]"
proof -
  have h1: "mset [[(3, 0), (1, 0)], [(1, - 1), (5, 0)]]
      = mset [[(1 :: int, - 1 :: int), (5, 0)], [(3, 0), (1, 0)]]"
    by (simp add: add_mset_commute)
  have h2: "length [[(1, - 1), (5, 0)], [(3, 0 :: int), (1 :: int, 0 :: int)]] \<le> 2"
    by simp
  from h1 h2 process_p_f64_two_rows_invariant [OF h1 h2] show ?thesis by (intro conjI)
qed

text \<open>
  Claim C9 as stated fails for three rows. On the one-column array of the binary64
  numbers nearest to 0.1, 0.2 and 0.3 the result is 0.20000000000000004
  (\<open>7205759403792795 * 2^-55\<close>); on the same rows in reverse order it is
  0.19999999999999998 (\<open>7205759403792793 * 2^-55\<close>).
\<close>

theorem process_p_reordering_counterexample:
  "mset [[(5404319552844595, - 54)], [(7205759403792794, - 55)], [(7205759403792794, - 56)]]
     = mset [[(7205759403792794 :: int, - 56 :: int)], [(7205759403792794, - 55)],
             [(5404319552844595, - 54)]]
   \<and> process_p_f64 [[(7205759403792794, - 56)], [(7205759403792794, - 55)],
                     [(5404319552844595, - 54)]]
       = Inr (Num64 (7205759403792795, - 55))
   \<and> process_p_f64 [[(5404319552844595, - 54)], [(7205759403792794, - 55)],
                     [(7205759403792794, - 56)]]
       = Inr (Num64 (7205759403792793, - 55))
   \<and> process_p_f64 [[(5404319552844595, - 54)], [(7205759403792794, - 55)],
                     [(7205759403792794, - 56)]]
       \<noteq> process_p_f64 [[(7205759403792794, - 56)], [(7205759403792794, - 55)],
                     [(5404319552844595, - 54)]]"
proof -
  have perm: "mset [[(5404319552844595, - 54)], [(7205759403792794, - 55)], [(7205759403792794, - 56)]]
     = mset [[(7205759403792794 :: int, - 56 :: int)], [(7205759403792794, - 55)],
             [(5404319552844595, - 54)]]"
    by (simp add: add_mset_commute)
  have fwd: "process_p_f64 [[(7205759403792794, - 56)], [(7205759403792794, - 55)],
                     [(5404319552844595, - 54)]]
       = Inr (Num64 (7205759403792795, - 55))"
    by (simp add: process_p_f64_def np_asarray_f64_def np_mean_axis0_f64_def np_max_f64_def f64_eval)
  have bwd: "process_p_f64 [[(5404319552844595, - 54)], [(7205759403792794, - 55)],
                     [(7205759403792794, - 56)]]
       = Inr (Num64 (7205759403792793, - 55))"
    by (simp add: process_p_f64_def np_asarray_f64_def np_mean_axis0_f64_def np_max_f64_def f64_eval)
  have "process_p_f64 [[(5404319552844595, - 54)], [(7205759403792794, - 55)],
                     [(7205759403792794, - 56)]]
       \<noteq> process_p_f64 [[(7205759403792794, - 56)], [(7205759403792794, - 55)],
                     [(5404319552844595, - 54)]]"
    by (simp only: fwd bwd) simp
  with perm fwd bwd show ?thesis by (intro conjI)
qed

subsection \<open>Maximum of the averages against average of the maxima\<close>





subsection \<open>What the script registers\<close>

text \<open>
  Claim C4. The script registers exactly five uncertain factors, each a continuous real
  parameter (\<^const>\<open>RealParameter\<close>), with the names and ranges \<open>mean\<close> over
  [0.01, 0.05], \<open>stdev\<close> over [0.001, 0.005], \<open>b\<close> over [0.1, 0.45], \<open>q\<close> over [2, 4.5] and
  \<open>delta\<close> over [0.93, 0.99]; the later registrations leave them as they are.
\<close>

theorem uncertainties_registered:
  "map param_name (uncertainties model) = [''mean'', ''stdev'', ''b'', ''q'', ''delta'']
   \<and> map lower_bound (uncertainties model) = [0.01, 0.001, 0.1, 2, 0.93]
   \<and> map upper_bound (uncertainties model) = [0.05, 0.005, 0.45, 4.5, 0.99]
   \<and> length (uncertainties model) = 5"
  by (simp add: model_def Model_def Let_def)

text \<open>
  Claim C5. The script registers exactly five decision levers, each a continuous real
  parameter, with the names and ranges \<open>c1\<close> and \<open>c2\<close> over [-2, 2], \<open>r1\<close> and \<open>r2\<close> over
  [0, 2] and \<open>w1\<close> over [0, 1].
\<close>

theorem levers_registered:
  "map param_name (levers model) = [''c1'', ''c2'', ''r1'', ''r2'', ''w1'']
   \<and> map lower_bound (levers model) = [- 2, - 2, 0, 0, 0]
   \<and> map upper_bound (levers model) = [2, 2, 2, 2, 1]
   \<and> length (levers model) = 5"
  by (simp add: model_def Model_def Let_def)

text \<open>
  Claim C6. The script registers exactly two constants: \<open>alpha\<close> with the value 0.41 and
  \<open>nsamples\<close> with the value 150.
\<close>

theorem constants_registered:
  "constants model = [Constant ''alpha'' (PyFloat 0.41), Constant ''nsamples'' (PyInt 150)]
   \<and> map constant_name (constants model) = [''alpha'', ''nsamples'']
   \<and> map constant_value (constants model) = [PyFloat (41 / 100), PyInt 150]
   \<and> length (constants model) = 2"
  by (simp add: model_def Model_def Let_def)

text \<open>
  Claim C7. The script registers exactly four scalar outcomes, named \<open>max_P\<close>, \<open>utility\<close>,
  \<open>inertia\<close> and \<open>reliability\<close> in that order. Each reads the one output field of the
  model function \<^verbatim>\<open>lake_problem\<close> that carries its own name, and none has a function
  applied to it afterwards.
\<close>

theorem outcomes_registered:
  "map outcome_name (outcomes model) = [''max_P'', ''utility'', ''inertia'', ''reliability'']
   \<and> map output_fields (outcomes model)
       = [[''max_P''], [''utility''], [''inertia''], [''reliability'']]
   \<and> map outcome_function (outcomes model) = [None, None, None, None]
   \<and> model_function model = ''lake_problem''"
  by (simp add: model_def Model_def Let_def ScalarOutcome_def output_fields_def)

subsection \<open>The analysis after the experiment run\<close>

text \<open>
  Claim C8. When the script runs as a program, the experiment's result is bound to the
  name \<open>results\<close> and nothing binds the name \<open>outcomes\<close>. Whatever value \<open>r\<close> the
  experiment run returns, the analysis that follows raises \<^verbatim>\<open>NameError\<close> for
  \<open>outcomes\<close>, at \<^verbatim>\<open>pd.DataFrame(outcomes)\<close>, and so does the script as a whole.
\<close>

theorem analysis_raises_NameError:
  "exec initial_globals (script True (Returns r)) = Inl (NameError ''outcomes'')
   \<and> (\<exists>env. exec initial_globals (setup_block @ experiment_block True (Returns r)) = Inr env
        \<and> env ''results'' = Some (Result r) \<and> env ''outcomes'' = None
        \<and> exec env analysis_block = Inl (NameError ''outcomes''))"
  by (simp add: script_def initial_globals_def setup_block_def experiment_block_def analysis_block_def)

subsection \<open>The model function: ranges of releases and outcomes\<close>

lemma clip_release_range: "0 \<le> clip_release a \<and> clip_release a \<le> 0.1"
  unfolding clip_release_def by (auto simp: min_def max_def)

lemma replication_step:
  "replication rule b q (e # es) X a =
     replication rule b q es
       (X @ [last X + clip_release (rule X) + last X powr q / (1 + last X powr q) - b * last X + e])
       (a @ [clip_release (rule X)])"
  by (simp only: replication.simps Let_def)

lemma replication_releases:
  "\<forall>r\<in>set a. 0 \<le> r \<and> r \<le> 0.1 \<Longrightarrow>
     \<forall>r\<in>set (snd (replication rule b q es X a)). 0 \<le> r \<and> r \<le> 0.1"
proof (induction es arbitrary: X a)
  case Nil
  then show ?case by (simp only: replication.simps snd_conv)
next
  case (Cons e es)
  have "\<forall>r\<in>set (a @ [clip_release (rule X)]). 0 \<le> r \<and> r \<le> 0.1"
  proof
    fix r assume "r \<in> set (a @ [clip_release (rule X)])"
    then have "r \<in> set a \<or> r = clip_release (rule X)" by auto
    then show "0 \<le> r \<and> r \<le> 0.1"
    proof
      assume "r \<in> set a"
      with Cons.prems show ?thesis by (rule bspec)
    next
      assume "r = clip_release (rule X)"
      then show ?thesis by (simp only: clip_release_range)
    qed
  qed
  then have "\<forall>r\<in>set (snd (replication rule b q es
       (X @ [last X + clip_release (rule X) + last X powr q / (1 + last X powr q) - b * last X + e])
       (a @ [clip_release (rule X)]))). 0 \<le> r \<and> r \<le> 0.1"
    by (rule Cons.IH)
  then show ?case by (simp only: replication_step)
qed


lemma replications_step:
  assumes "draw_inflows (lognormal env (u_mean s) (u_stdev s)) (horizon env) g = (es, g')"
    and "replications env s p n g' = (runs, g'')"
  shows "replications env s p (Suc n) g =
     (replication (release_rule env p) (u_b s) (u_q s) es [0] [] # runs, g'')"
  by (simp add: assms)

lemma replications_releases:
  "\<forall>run\<in>set (fst (replications env s p n g)). \<forall>r\<in>set (snd run). 0 \<le> r \<and> r \<le> 0.1"
proof (induction n arbitrary: g)
  case 0
  show ?case by simp
next
  case (Suc n)
  obtain es g' where d: "draw_inflows (lognormal env (u_mean s) (u_stdev s)) (horizon env) g = (es, g')"
    by (cases "draw_inflows (lognormal env (u_mean s) (u_stdev s)) (horizon env) g")
  obtain runs g'' where r: "replications env s p n g' = (runs, g'')"
    by (cases "replications env s p n g'")
  have first: "\<forall>r\<in>set (snd (replication (release_rule env p) (u_b s) (u_q s) es [0] [])).
      0 \<le> r \<and> r \<le> 0.1"
    by (rule replication_releases) simp
  have "\<forall>run\<in>set (fst (replications env s p n g')). \<forall>r\<in>set (snd run). 0 \<le> r \<and> r \<le> 0.1"
    by (rule Suc.IH)
  then have rest: "\<forall>run\<in>set runs. \<forall>r\<in>set (snd run). 0 \<le> r \<and> r \<le> 0.1"
    by (simp only: r fst_conv)
  from first rest show ?case
    by (simp only: replications_step [OF d r] fst_conv set_simps ball_simps simp_thms)
qed

lemma replications_length: "length (fst (replications env s p n g)) = n"
proof (induction n arbitrary: g)
  case 0
  show ?case by simp
next
  case (Suc n)
  obtain es g' where d: "draw_inflows (lognormal env (u_mean s) (u_stdev s)) (horizon env) g = (es, g')"
    by (cases "draw_inflows (lognormal env (u_mean s) (u_stdev s)) (horizon env) g")
  obtain runs g'' where r: "replications env s p n g' = (runs, g'')"
    by (cases "replications env s p n g'")
  have "length (fst (replications env s p n g')) = n" by (rule Suc.IH)
  then have "length runs = n" by (simp only: r fst_conv)
  then show ?case by (simp only: replications_step [OF d r] fst_conv list.size length_Cons)
qed


lemma sum_list_fraction:
  fixes f :: "'a \<Rightarrow> real"
  shows "\<forall>x\<in>set xs. 0 \<le> f x \<and> f x \<le> 1 \<Longrightarrow>
     0 \<le> (\<Sum>x\<leftarrow>xs. f x) \<and> (\<Sum>x\<leftarrow>xs. f x) \<le> real (length xs)"
proof (induction xs)
  case Nil
  show ?case by simp
next
  case (Cons x xs)
  from Cons.prems have x: "0 \<le> f x" "f x \<le> 1" by simp_all
  from Cons.prems have "\<forall>x\<in>set xs. 0 \<le> f x \<and> f x \<le> 1" by simp
  then have "0 \<le> (\<Sum>x\<leftarrow>xs. f x) \<and> (\<Sum>x\<leftarrow>xs. f x) \<le> real (length xs)"
    by (rule Cons.IH)
  with x show ?case by simp
qed

lemma fraction_range:
  fixes f :: "'a \<Rightarrow> real"
  assumes "\<forall>x\<in>set xs. 0 \<le> f x \<and> f x \<le> 1" and "length xs \<le> n"
  shows "0 \<le> (\<Sum>x\<leftarrow>xs. f x) / real n \<and> (\<Sum>x\<leftarrow>xs. f x) / real n \<le> 1"
proof -
  from assms(1) have "0 \<le> (\<Sum>x\<leftarrow>xs. f x) \<and> (\<Sum>x\<leftarrow>xs. f x) \<le> real (length xs)"
    by (rule sum_list_fraction)
  then have s: "0 \<le> (\<Sum>x\<leftarrow>xs. f x)" and u: "(\<Sum>x\<leftarrow>xs. f x) \<le> real (length xs)"
    by simp_all
  from assms(2) have "real (length xs) \<le> real n" by simp
  with u have le: "(\<Sum>x\<leftarrow>xs. f x) \<le> real n" by (rule order_trans)
  have upper: "(\<Sum>x\<leftarrow>xs. f x) / real n \<le> 1"
  proof (cases "n = 0")
    case True
    then show ?thesis by simp
  next
    case False
    then have "0 < real n" by simp
    with le show ?thesis by (simp add: divide_le_eq_1)
  qed
  from s have "0 \<le> (\<Sum>x\<leftarrow>xs. f x) / real n" by simp
  then show ?thesis using upper by (rule conjI)
qed

lemma of_bool_fraction: "0 \<le> (of_bool P :: real) \<and> (of_bool P :: real) \<le> 1"
  by simp

lemma inertia_of_range: "0 \<le> inertia_of a \<and> inertia_of a \<le> 1"
proof -
  have 1: "\<forall>t\<in>set [1..<length a]. 0 \<le> (of_bool (\<bar>a ! t - a ! (t - 1)\<bar> > 0.2) :: real)
      \<and> (of_bool (\<bar>a ! t - a ! (t - 1)\<bar> > 0.2) :: real) \<le> 1"
    by simp
  have 2: "length [1..<length a] \<le> length a - 1" by simp
  from 1 2 show ?thesis
    unfolding inertia_of_def by (rule fraction_range)
qed

lemma reliability_of_range: "0 \<le> reliability_of x T X \<and> reliability_of x T X \<le> 1"
proof -
  have 1: "\<forall>t\<in>set [0..<T]. 0 \<le> (of_bool (X ! t < x) :: real) \<and> (of_bool (X ! t < x) :: real) \<le> 1"
    by simp
  have 2: "length [0..<T] \<le> T" by simp
  from 1 2 show ?thesis
    unfolding reliability_of_def by (rule fraction_range)
qed


lemma lake_problem_cases:
  assumes "replications env s p (k_nsamples k) g = (runs, g')"
  shows "fst (lake_problem env s p k g) =
     (if k_nsamples k = 0 \<or> horizon env < 2 then None
      else Some \<lparr>max_P = foldl max (hd (np_mean_axis0 (map fst runs)))
                           (tl (np_mean_axis0 (map fst runs))),
                 utility = utility_of (k_alpha k) (u_delta s) (snd (hd runs)),
                 inertia = inertia_of (snd (hd runs)),
                 reliability =
                   (\<Sum>run\<leftarrow>runs. reliability_of (critical_P env (u_b s) (u_q s)) (horizon env) (fst run))
                     / real (k_nsamples k)\<rparr>)"
  by (simp add: lake_problem_def assms Let_def)

text \<open>
  Claim C2. For every parameter set whose uncertainty and lever values lie in the declared
  ranges, every release computed in any replication lies in [0, 0.1], and whenever the
  evaluation yields an outcome vector, its \<open>inertia\<close> and its \<open>reliability\<close> lie in [0, 1].
  The evaluation yields one unless there is no replication or the horizon is below 2. The
  bounds come from the clipping and from the outcomes being fractions; they hold for any
  release rule, threshold and sampler.
\<close>

theorem lake_problem_outcomes_in_range:
  assumes "valid_parameter_set s p"
  shows "(\<forall>run\<in>set (fst (replications env s p (k_nsamples k) g)).
            \<forall>a\<in>set (snd run). 0 \<le> a \<and> a \<le> 0.1)
       \<and> (case fst (lake_problem env s p k g) of
             None \<Rightarrow> k_nsamples k = 0 \<or> horizon env < 2
           | Some out \<Rightarrow>
               0 \<le> inertia out \<and> inertia out \<le> 1 \<and> 0 \<le> reliability out \<and> reliability out \<le> 1)"
proof
  show "\<forall>run\<in>set (fst (replications env s p (k_nsamples k) g)).
          \<forall>a\<in>set (snd run). 0 \<le> a \<and> a \<le> 0.1"
    by (rule replications_releases)
next
  obtain runs g' where r: "replications env s p (k_nsamples k) g = (runs, g')"
    by (cases "replications env s p (k_nsamples k) g")
  have "length (fst (replications env s p (k_nsamples k) g)) = k_nsamples k"
    by (rule replications_length)
  then have len: "length runs \<le> k_nsamples k" by (simp add: r)
  have "\<forall>run\<in>set runs.
      0 \<le> reliability_of (critical_P env (u_b s) (u_q s)) (horizon env) (fst run)
      \<and> reliability_of (critical_P env (u_b s) (u_q s)) (horizon env) (fst run) \<le> 1"
    by (simp add: reliability_of_range)
  then have rel: "0 \<le> (\<Sum>run\<leftarrow>runs.
        reliability_of (critical_P env (u_b s) (u_q s)) (horizon env) (fst run)) / real (k_nsamples k)
      \<and> (\<Sum>run\<leftarrow>runs.
        reliability_of (critical_P env (u_b s) (u_q s)) (horizon env) (fst run)) / real (k_nsamples k) \<le> 1"
    using len by (rule fraction_range)
  show "case fst (lake_problem env s p k g) of
          None \<Rightarrow> k_nsamples k = 0 \<or> horizon env < 2
        | Some out \<Rightarrow>
            0 \<le> inertia out \<and> inertia out \<le> 1 \<and> 0 \<le> reliability out \<and> reliability out \<le> 1"
  proof (cases "k_nsamples k = 0 \<or> horizon env < 2")
    case True
    then show ?thesis by (simp add: lake_problem_cases [OF r])
  next
    case False
    with rel inertia_of_range [of "snd (hd runs)"] show ?thesis
      by (simp add: lake_problem_cases [OF r])
  qed
qed

theorem lake_problem_outcomes_in_range_witness:
  "valid_parameter_set
      \<lparr>u_mean = 0.02, u_stdev = 0.002, u_b = 0.42, u_q = 2, u_delta = 0.98\<rparr>
      \<lparr>l_c1 = 1, l_c2 = - 1, l_r1 = 0.5, l_r2 = 1.5, l_w1 = 0.5\<rparr>
   \<and> map snd (fst (replications
            \<lparr>horizon = 2, release_rule = (\<lambda>p X. l_c1 p), critical_P = (\<lambda>b q. 0.5),
              lognormal = (\<lambda>m sd g. (m, Suc g)), seed = (\<lambda>n. n)\<rparr>
            \<lparr>u_mean = 0.02, u_stdev = 0.002, u_b = 0.42, u_q = 2, u_delta = 0.98\<rparr>
            \<lparr>l_c1 = 1, l_c2 = - 1, l_r1 = 0.5, l_r2 = 1.5, l_w1 = 0.5\<rparr>
            (k_nsamples \<lparr>k_alpha = 0.41, k_nsamples = 1\<rparr>) (0 :: nat))) = [[0.1, 0.1]]
   \<and> (case fst (lake_problem
            \<lparr>horizon = 2, release_rule = (\<lambda>p X. l_c1 p), critical_P = (\<lambda>b q. 0.5),
              lognormal = (\<lambda>m sd g. (m, Suc g)), seed = (\<lambda>n. n)\<rparr>
            \<lparr>u_mean = 0.02, u_stdev = 0.002, u_b = 0.42, u_q = 2, u_delta = 0.98\<rparr>
            \<lparr>l_c1 = 1, l_c2 = - 1, l_r1 = 0.5, l_r2 = 1.5, l_w1 = 0.5\<rparr>
            \<lparr>k_alpha = 0.41, k_nsamples = 1\<rparr> (0 :: nat)) of
         None \<Rightarrow> k_nsamples \<lparr>k_alpha = 0.41, k_nsamples = 1\<rparr> = 0
                 \<or> horizon \<lparr>horizon = 2, release_rule = (\<lambda>p X. l_c1 p), critical_P = (\<lambda>b q. 0.5),
              lognormal = (\<lambda>m sd g. (m, Suc g)), seed = (\<lambda>n. n)\<rparr> < 2
       | Some out \<Rightarrow>
           0 \<le> inertia out \<and> inertia out \<le> 1 \<and> 0 \<le> reliability out \<and> reliability out \<le> 1)"
proof -
  have h: "valid_parameter_set
      \<lparr>u_mean = 0.02, u_stdev = 0.002, u_b = 0.42, u_q = 2, u_delta = 0.98\<rparr>
      \<lparr>l_c1 = 1, l_c2 = - 1, l_r1 = 0.5, l_r2 = 1.5, l_w1 = 0.5\<rparr>"
    by (simp add: valid_parameter_set_def)
  have releases: "map snd (fst (replications
            \<lparr>horizon = 2, release_rule = (\<lambda>p X. l_c1 p), critical_P = (\<lambda>b q. 0.5),
              lognormal = (\<lambda>m sd g. (m, Suc g)), seed = (\<lambda>n. n)\<rparr>
            \<lparr>u_mean = 0.02, u_stdev = 0.002, u_b = 0.42, u_q = 2, u_delta = 0.98\<rparr>
            \<lparr>l_c1 = 1, l_c2 = - 1, l_r1 = 0.5, l_r2 = 1.5, l_w1 = 0.5\<rparr>
            (k_nsamples \<lparr>k_alpha = 0.41, k_nsamples = 1\<rparr>) (0 :: nat))) = [[0.1, 0.1]]"
    by (simp add: numeral_2_eq_2 clip_release_def Let_def
          replications.simps(2) [of _ _ _ 0, simplified])
  from lake_problem_outcomes_in_range [OF h] have outcome:
    "case fst (lake_problem
            \<lparr>horizon = 2, release_rule = (\<lambda>p X. l_c1 p), critical_P = (\<lambda>b q. 0.5),
              lognormal = (\<lambda>m sd g. (m, Suc g)), seed = (\<lambda>n. n)\<rparr>
            \<lparr>u_mean = 0.02, u_stdev = 0.002, u_b = 0.42, u_q = 2, u_delta = 0.98\<rparr>
            \<lparr>l_c1 = 1, l_c2 = - 1, l_r1 = 0.5, l_r2 = 1.5, l_w1 = 0.5\<rparr>
            \<lparr>k_alpha = 0.41, k_nsamples = 1\<rparr> (0 :: nat)) of
         None \<Rightarrow> k_nsamples \<lparr>k_alpha = 0.41, k_nsamples = 1\<rparr> = 0
                 \<or> horizon \<lparr>horizon = 2, release_rule = (\<lambda>p X. l_c1 p), critical_P = (\<lambda>b q. 0.5),
              lognormal = (\<lambda>m sd g. (m, Suc g)), seed = (\<lambda>n. n)\<rparr> < 2
       | Some out \<Rightarrow>
           0 \<le> inertia out \<and> inertia out \<le> 1 \<and> 0 \<le> reliability out \<and> reliability out \<le> 1"
    by (rule conjunct2)
  from h releases outcome show ?thesis by (intro conjI)
qed

subsection \<open>The model function: determinism under fixed randomness\<close>






end
